theory Spec2Isabelle
  imports Main "HOL-Library.Sublist"
begin

section \<open>Data model\<close>

text \<open>
  The shared variable \<open>m\<close> of \<^verbatim>\<open>main.go\<close> is a Go map from request paths to
  structs with the two string fields \<open>Repo\<close> and \<open>Display\<close>. The struct is a record,
  the map a partial function. A nil map and an empty map are the same value here:
  the program only indexes \<open>m\<close> with the comma-ok form, ranges over it and hands its
  address to the YAML decoder, and none of these tells the two apart.
\<close>

record entry =
  Repo :: string
  Display :: string

type_synonym config = "string \<rightharpoonup> entry"

type_synonym bytes = string

text \<open>
  Go errors are values. The model names them after the call of \<^verbatim>\<open>main.go\<close> that
  produces them.
\<close>

datatype error =
    NewRequest_failed
  | Do_failed
  | Status_code int
  | ReadAll_failed
  | ReadFile_failed
  | Yaml_syntax_error
  | Yaml_decode_error

text \<open>A call either returns or panics; an unrecovered panic ends the process.\<close>

datatype 'a outcome = Return 'a | Panic

section \<open>Library functions used by the program\<close>

text \<open>\<^verbatim>\<open>strings.HasPrefix(s, prefix)\<close> and \<^verbatim>\<open>strings.Contains(s, substr)\<close>.\<close>

fun HasPrefix :: "string \<Rightarrow> string \<Rightarrow> bool" where
  "HasPrefix s [] = True"
| "HasPrefix [] (p # ps) = False"
| "HasPrefix (c # s) (p # ps) = (c = p \<and> HasPrefix s ps)"

fun Contains :: "string \<Rightarrow> string \<Rightarrow> bool" where
  "Contains [] sub = (sub = [])"
| "Contains (c # s) sub = (HasPrefix (c # s) sub \<or> Contains s sub)"

text \<open>
  \<^verbatim>\<open>fmt.Sprintf("%v %v/tree/master{/dir} %v/blob/master{/dir}/{file}#L{line}", r, r, r)\<close>
  for a string \<open>r\<close>.
\<close>

definition Sprintf_display :: "string \<Rightarrow> string" where
  "Sprintf_display r =
     r @ '' '' @ r @ ''/tree/master{/dir} '' @ r @ ''/blob/master{/dir}/{file}#L{line}''"

subsection \<open>The YAML decoder\<close>

text \<open>
  \<^verbatim>\<open>yaml.Unmarshal(vanity, &m)\<close> belongs to the package \<^verbatim>\<open>gopkg.in/yaml.v2\<close>. The
  model keeps the syntax of YAML abstract and records what the decoder does to its
  target, a map of \<open>entry\<close> structs:
  \<^item> \<open>Rejected\<close>: the parser rejects the bytes. The whole document is parsed before
    anything is decoded, so the target is untouched and an error is returned.
  \<^item> \<open>Null_document\<close>: the document is the null scalar. The decoder assigns the zero
    value to the target, which for a map is nil, and returns no error.
  \<^item> \<open>Decoded kvs bad\<close>: every other document. The decoder allocates the target map
    when it is nil and otherwise keeps the map and its entries; it then stores the
    pairs \<open>kvs\<close> in document order, each value decoded into a fresh struct, a later
    store of a key replacing an earlier one. A value that does not fit the struct is
    skipped and decoding goes on; \<open>bad\<close> says that the decoder met such a value (or
    gave up on the parsed document for another reason), and then an error is returned
    with the stores made so far left in the target.
    An empty document is \<open>Decoded [] False\<close>, a top-level scalar or sequence is
    \<open>Decoded [] True\<close>.
\<close>

datatype yaml_doc =
    Rejected
  | Null_document
  | Decoded "(string \<times> entry) list" bool

fun store_all :: "(string \<times> entry) list \<Rightarrow> config \<Rightarrow> config" where
  "store_all [] m = m"
| "store_all ((k, e) # kvs) m = store_all kvs (m(k \<mapsto> e))"

fun Unmarshal :: "yaml_doc \<Rightarrow> config \<Rightarrow> error option \<times> config" where
  "Unmarshal Rejected m = (Some Yaml_syntax_error, m)"
| "Unmarshal Null_document m = (None, Map.empty)"
| "Unmarshal (Decoded kvs bad) m =
     (if bad then Some Yaml_decode_error else None, store_all kvs m)"

section \<open>The environment of a reload\<close>

text \<open>
  What the outside world answers during one reload: the reply to the GET request, the
  result of \<^verbatim>\<open>ioutil.ReadFile\<close>, the document the YAML parser finds in given bytes,
  and the order in which the runtime walks a map (Go leaves it unspecified).
\<close>

datatype http_reply =
    No_request
  | No_response
  | Response nat int bytes "error option" nat

text \<open>
  \<open>No_request\<close>: \<^verbatim>\<open>http.NewRequestWithContext\<close> returns an error.
  \<open>No_response\<close>: no response comes, however long the client waits (the host is
  unknown, the connection is refused, the URL has no scheme a transport serves), and
  \<^verbatim>\<open>http.DefaultClient.Do\<close> returns an error.
  \<open>Response t code body err t'\<close>: a response with \<^verbatim>\<open>StatusCode\<close> \<open>code\<close> is on its
  way. Left alone, it is there \<open>t\<close> nanoseconds after the call of \<^verbatim>\<open>Do\<close>, and
  \<^verbatim>\<open>ioutil.ReadAll\<close> on its body returns \<open>(body, err)\<close> at \<open>t'\<close> nanoseconds after that
  call. Whether the client waits that long is the program's matter: see \<open>Timeout\<close>.
\<close>

record env =
  http_get :: "string \<Rightarrow> http_reply"
  ReadFile :: "string \<Rightarrow> bytes \<times> error option"
  yaml_parse :: "bytes \<Rightarrow> yaml_doc"
  range_order :: "config \<Rightarrow> string list"

section \<open>Config Source Reader\<close>

text \<open>
  Line 162, \<^verbatim>\<open>http.DefaultClient.Timeout = 30\<close>. The field is a \<^verbatim>\<open>time.Duration\<close>,
  which counts nanoseconds: the client gives the whole exchange, from the call of
  \<^verbatim>\<open>Do\<close> to the end of the body, 30 nanoseconds. An exchange over a network takes
  microseconds at least, so for every real remote source the timer fires first.
\<close>

definition Timeout :: nat where
  "Timeout = 30"

text \<open>
  \<^verbatim>\<open>loadHTTPFile\<close>, lines 161 to 179. When the timer of the client fires before the
  response is there, \<^verbatim>\<open>Do\<close> returns an error; when it fires before the body is
  read, \<^verbatim>\<open>ioutil.ReadAll\<close> returns the bytes read so far and an error. After
  \<^verbatim>\<open>ioutil.ReadAll\<close> the function evaluates \<^verbatim>\<open>err.Error()\<close> as an argument of
  \<^verbatim>\<open>log.Printf\<close> without testing \<open>err\<close>; on a nil \<open>err\<close> that method call panics.
\<close>

definition loadHTTPFile :: "env \<Rightarrow> string \<Rightarrow> (bytes \<times> error option) outcome" where
  "loadHTTPFile w path =
     (case http_get w path of
        No_request \<Rightarrow> Return ([], Some NewRequest_failed)
      | No_response \<Rightarrow> Return ([], Some Do_failed)
      | Response t code vanity err t' \<Rightarrow>
          if Timeout \<le> t then Return ([], Some Do_failed)
          else if code \<noteq> 200 then Return ([], Some (Status_code code))
          else (case (if Timeout \<le> t' then Some ReadAll_failed else err) of
                  None \<Rightarrow> Panic
                | Some e \<Rightarrow> Return (vanity, Some e)))"

definition loadDiskFile :: "env \<Rightarrow> string \<Rightarrow> (bytes \<times> error option) outcome" where
  "loadDiskFile w path = Return (ReadFile w path)"

definition readFile :: "env \<Rightarrow> string \<Rightarrow> (bytes \<times> error option) outcome" where
  "readFile w path =
     (if HasPrefix path ''http'' \<or> HasPrefix path ''https'' then loadHTTPFile w path
      else loadDiskFile w path)"

text \<open>
  The dispatch as the specification words it: a remote GET if and only if the
  locator's scheme indicates HTTP or HTTPS, that is, the locator is a URL that starts
  with \<open>http://\<close> or \<open>https://\<close>. This definition follows the specification, not
  the code; \<open>readFile\<close> above is the code.
\<close>

definition spec_scheme_is_http :: "string \<Rightarrow> bool" where
  "spec_scheme_is_http locator \<longleftrightarrow>
     HasPrefix locator ''http://'' \<or> HasPrefix locator ''https://''"

section \<open>Config Parser/Enricher and the reload\<close>

text \<open>
  The loop of \<^verbatim>\<open>loadYaml\<close>, lines 68 to 75:
  \<^verbatim>\<open>for _, e := range m { if e.Display != "" { continue }; if ... { e.Display = ... } }\<close>.
  The map holds structs, not pointers, so \<open>e\<close> is a copy of the map value.
  \<open>loop_body\<close> is the value of the local variable \<open>e\<close> at the end of one
  iteration; the loop never stores it back under its key.
\<close>

definition loop_body :: "entry \<Rightarrow> entry" where
  "loop_body e =
     (if Display e \<noteq> '''' then e
      else if Contains (Repo e) ''github.com''
        then e\<lparr>Display := Sprintf_display (Repo e)\<rparr>
        else e)"

fun range_loop :: "string list \<Rightarrow> config \<Rightarrow> config" where
  "range_loop [] m = m"
| "range_loop (k # ks) m =
     (case m k of
        None \<Rightarrow> range_loop ks m
      | Some v \<Rightarrow> (let e = loop_body v in range_loop ks m))"

text \<open>
  \<^verbatim>\<open>loadYaml\<close>, lines 56 to 77, on the shared map \<open>m\<close>: the returned error and the
  map afterwards. The decoder writes straight into the shared map.
\<close>

definition loadYaml :: "env \<Rightarrow> string \<Rightarrow> config \<Rightarrow> (error option \<times> config) outcome" where
  "loadYaml w path m =
     (case readFile w path of
        Panic \<Rightarrow> Panic
      | Return (vanity, Some err) \<Rightarrow> Return (Some err, m)
      | Return (vanity, None) \<Rightarrow>
          (case Unmarshal (yaml_parse w vanity) m of
             (Some err, m') \<Rightarrow> Return (Some err, m')
           | (None, m') \<Rightarrow> Return (None, range_loop (range_order w m') m')))"

section \<open>Request Handler\<close>

subsection \<open>The response writer\<close>

text \<open>
  \<^verbatim>\<open>http.ResponseWriter\<close> as the server of \<^verbatim>\<open>net/http\<close> implements it. The status
  line and the header are fixed by the first \<^verbatim>\<open>WriteHeader\<close>; a \<^verbatim>\<open>Write\<close> before
  any \<^verbatim>\<open>WriteHeader\<close> calls \<^verbatim>\<open>WriteHeader(200)\<close> first; a later \<^verbatim>\<open>WriteHeader\<close>
  is ignored, and so are later changes of the header map. Once a write to the
  connection has failed the error stays with the writer (\<open>failed\<close>): every later
  write is refused and adds nothing to the body.
\<close>

record response_writer =
  header :: "string \<rightharpoonup> string"
  wroteHeader :: bool
  status :: int
  sent_header :: "string \<rightharpoonup> string"
  body :: string
  failed :: bool

definition new_writer :: response_writer where
  "new_writer =
     \<lparr>header = Map.empty, wroteHeader = False, status = 0,
      sent_header = Map.empty, body = [], failed = False\<rparr>"

definition WriteHeader :: "int \<Rightarrow> response_writer \<Rightarrow> response_writer" where
  "WriteHeader code w =
     (if wroteHeader w then w
      else w\<lparr>wroteHeader := True, status := code, sent_header := header w\<rparr>)"

definition Write :: "string \<Rightarrow> response_writer \<Rightarrow> response_writer" where
  "Write data w =
     (let w' = (if wroteHeader w then w else WriteHeader 200 w)
      in if failed w' then w' else w'\<lparr>body := body w' @ data\<rparr>)"

text \<open>
  \<^verbatim>\<open>http.Error(w, msg, code)\<close> sets two header fields, writes the header with \<open>code\<close>
  and prints \<open>msg\<close> and a newline. \<^verbatim>\<open>http.NotFound\<close> is
  \<^verbatim>\<open>http.Error(w, "404 page not found", 404)\<close>.
\<close>

definition Error :: "string \<Rightarrow> int \<Rightarrow> response_writer \<Rightarrow> response_writer" where
  "Error msg code w =
     Write (msg @ ''\<newline>'')
       (WriteHeader code
          (w\<lparr>header := (header w)
                (''Content-Type'' \<mapsto> ''text/plain; charset=utf-8'',
                 ''X-Content-Type-Options'' \<mapsto> ''nosniff'')\<rparr>))"

definition NotFound :: "response_writer \<Rightarrow> response_writer" where
  "NotFound w = Error ''404 page not found'' 404 w"

text \<open>
  The content type the client sees: the field of the header that was sent, or, when
  the handler set none, the type the server sniffs from the start of the body with
  \<^verbatim>\<open>http.DetectContentType\<close>. Of the sniffing rules only the first is modelled, an
  HTML doctype at the start of the data; \<open>rest\<close> stands for all the others.
\<close>

definition DetectContentType :: "(string \<Rightarrow> string) \<Rightarrow> string \<Rightarrow> string" where
  "DetectContentType rest data =
     (if HasPrefix data ''<!DOCTYPE html>'' then ''text/html; charset=utf-8''
      else rest data)"

definition content_type :: "(string \<Rightarrow> string) \<Rightarrow> response_writer \<Rightarrow> string" where
  "content_type rest w =
     (case sent_header w ''Content-Type'' of
        Some t \<Rightarrow> t
      | None \<Rightarrow> DetectContentType rest (body w))"

subsection \<open>The template\<close>

text \<open>
  The data handed to the template is a struct with the fields \<open>Import\<close>, \<open>Repo\<close>
  and \<open>Display\<close>; as a record it extends \<open>entry\<close> by \<open>Import\<close>.
  \<^verbatim>\<open>html/template\<close> escapes each inserted value for the place it is inserted at;
  the escapers are a parameter, one for each kind of place in \<open>vanityTmpl\<close>.
\<close>

record page_data = entry +
  Import :: string

datatype place = Meta_content | Refresh_content | Anchor_href

type_synonym escaper = "place \<Rightarrow> string \<Rightarrow> string"

definition vanity_page :: "escaper \<Rightarrow> page_data \<Rightarrow> string" where
  \<open>vanity_page esc d =
     ''<!DOCTYPE html>\<newline><html>\<newline><head>\<newline>'' @
     ''<meta http-equiv="Content-Type" content="text/html; charset=utf-8"/>\<newline>'' @
     ''<meta name="go-import" content="'' @ esc Meta_content (Import d) @ '' git '' @
        esc Meta_content (Repo d) @ ''">\<newline>'' @
     ''<meta name="go-source" content="'' @ esc Meta_content (Import d) @ '' '' @
        esc Meta_content (Display d) @ ''">\<newline>'' @
     ''<meta http-equiv="refresh" content="0; url=https://godoc.org/'' @
        esc Refresh_content (Import d) @ ''">\<newline>'' @
     ''</head>\<newline><body>\<newline>'' @
     ''Nothing to see here; <a href="https://godoc.org/'' @
        esc Anchor_href (Import d) @ ''">see the package on godoc</a>.\<newline>'' @
     ''</body>\<newline></html>''\<close>

text \<open>
  \<^verbatim>\<open>vanityTmpl.Execute(w, data)\<close> writes the page to \<open>w\<close> as it goes. The data are
  three strings, so the execution can only fail before the first write (the escaping
  pass of \<^verbatim>\<open>html/template\<close>) or because a write to \<open>w\<close> fails. When it fails, the
  output written so far stays written.
  \<open>Write_fails n\<close>: the connection breaks while the page is being written; the writer
  has taken \<open>n + 1\<close> bytes of the page when a write returns the error, and it is
  failed from then on. (The writer of the server buffers what it is given, so a write
  that returns an error has been preceded by output.)
\<close>

datatype fault = No_fault | Fails_before_output | Write_fails nat

datatype render_error = Execute_failed

definition Execute ::
  "fault \<Rightarrow> escaper \<Rightarrow> page_data \<Rightarrow> response_writer \<Rightarrow> response_writer \<times> render_error option"
where
  "Execute f esc d w =
     (let page = vanity_page esc d in
      case f of
        No_fault \<Rightarrow> (Write page w, None)
      | Fails_before_output \<Rightarrow> (w, Some Execute_failed)
      | Write_fails n \<Rightarrow>
          if Suc n < length page
          then ((Write (take (Suc n) page) w)\<lparr>failed := True\<rparr>, Some Execute_failed)
          else (Write page w, None))"

subsection \<open>The handler\<close>

text \<open>
  \<^verbatim>\<open>handle\<close>, lines 79 to 109, with \<open>current = r.URL.Path\<close>, the configured \<open>host\<close>
  and the shared map \<open>m\<close> as read under the read lock.
\<close>

definition handle ::
  "string \<Rightarrow> config \<Rightarrow> fault \<Rightarrow> escaper \<Rightarrow> string \<Rightarrow> response_writer \<Rightarrow> response_writer"
where
  "handle host m f esc current w =
     (case m current of
        None \<Rightarrow> NotFound w
      | Some p \<Rightarrow>
          (case Execute f esc
                  \<lparr>Repo = Repo p, Display = Display p, Import = host @ current\<rparr> w of
             (w', Some err) \<Rightarrow> Error ''cannot render the page'' 500 w'
           | (w', None) \<Rightarrow> w'))"

section \<open>The process\<close>

text \<open>
  \<^verbatim>\<open>main\<close>, lines 41 to 54, and the two goroutines it starts. \<^verbatim>\<open>refreshWhenSig\<close>
  registers for SIGHUP and starts a goroutine that calls \<^verbatim>\<open>loadYaml\<close> once for each
  signal; \<^verbatim>\<open>refreshYaml\<close> starts a goroutine that calls \<^verbatim>\<open>loadYaml\<close> and sleeps, for
  ever; both return at once. Then \<^verbatim>\<open>main\<close> prints the usage and returns when \<open>host\<close>
  is empty, and serves otherwise (\<^verbatim>\<open>http.ListenAndServe\<close> is taken to succeed). A
  SIGHUP that arrives before \<^verbatim>\<open>signal.Notify\<close> ends the process, as does the return
  of \<^verbatim>\<open>main\<close> and a panic in a goroutine.

  The goroutines and the request handlers run interleaved. A schedule is the list of
  the steps taken, in the order in which they take effect on the shared map; a reload
  and a lookup are one step each, as both happen under the lock. An event that cannot
  happen in a state leaves it as it is.
\<close>

datatype main_pc = At_refreshWhenSig | At_refreshYaml | At_host_check | Serving | Exited

record process =
  pc :: main_pc
  signal_loop :: bool
  interval_loop :: bool
  shared :: config
  loads :: nat
  served :: "response_writer list"
  alive :: bool

datatype event =
    Main_step
  | Interval_reload env
  | Sighup env
  | Request string fault

definition start :: process where
  "start =
     \<lparr>pc = At_refreshWhenSig, signal_loop = False, interval_loop = False,
      shared = Map.empty, loads = 0, served = [], alive = True\<rparr>"

definition reload :: "env \<Rightarrow> string \<Rightarrow> process \<Rightarrow> process" where
  "reload w path s =
     (case loadYaml w path (shared s) of
        Panic \<Rightarrow> s\<lparr>alive := False\<rparr>
      | Return (err, m') \<Rightarrow> s\<lparr>shared := m', loads := Suc (loads s)\<rparr>)"

definition main_step :: "string \<Rightarrow> process \<Rightarrow> process" where
  "main_step host s =
     (case pc s of
        At_refreshWhenSig \<Rightarrow> s\<lparr>pc := At_refreshYaml, signal_loop := True\<rparr>
      | At_refreshYaml \<Rightarrow> s\<lparr>pc := At_host_check, interval_loop := True\<rparr>
      | At_host_check \<Rightarrow>
          if host = '''' then s\<lparr>pc := Exited, alive := False\<rparr> else s\<lparr>pc := Serving\<rparr>
      | Serving \<Rightarrow> s
      | Exited \<Rightarrow> s)"

definition step :: "string \<Rightarrow> string \<Rightarrow> escaper \<Rightarrow> event \<Rightarrow> process \<Rightarrow> process" where
  "step host path esc ev s =
     (if \<not> alive s then s
      else case ev of
        Main_step \<Rightarrow> main_step host s
      | Interval_reload w \<Rightarrow> if interval_loop s then reload w path s else s
      | Sighup w \<Rightarrow> if signal_loop s then reload w path s else s\<lparr>alive := False\<rparr>
      | Request current f \<Rightarrow>
          if pc s = Serving
          then s\<lparr>served := served s @ [handle host (shared s) f esc current new_writer]\<rparr>
          else s)"

definition run :: "string \<Rightarrow> string \<Rightarrow> escaper \<Rightarrow> event list \<Rightarrow> process" where
  "run host path esc sched = fold (step host path esc) sched start"

text \<open>
  What holds of the process in every state: \<^verbatim>\<open>main\<close> is past
  \<^verbatim>\<open>refreshWhenSig\<close> only with the signal goroutine started, past \<^verbatim>\<open>refreshYaml\<close>
  only with the interval goroutine started, and requests are answered only while it
  serves.
\<close>

definition started :: "process \<Rightarrow> bool" where
  "started s \<longleftrightarrow>
     (pc s \<noteq> At_refreshWhenSig \<longrightarrow> signal_loop s) \<and>
     (pc s \<in> {At_host_check, Serving, Exited} \<longrightarrow> interval_loop s) \<and>
     (served s \<noteq> [] \<longrightarrow> pc s = Serving)"

section \<open>The lock around the shared map\<close>

text \<open>
  \<open>mutex\<close> is a \<^verbatim>\<open>sync.RWMutex\<close>. \<^verbatim>\<open>loadYaml\<close> takes the write lock at line 63 and
  gives it back, by the deferred \<^verbatim>\<open>Unlock\<close>, when it returns; in between the decoder
  writes to \<open>m\<close>, one store after the other (or the one assignment of nil for a null
  document). \<^verbatim>\<open>handle\<close> takes the read lock at line 83, evaluates \<open>m[current]\<close> at
  line 84 and gives the lock back at line 85.

  Here the goroutines are interleaved store by store. A goroutine \<open>g\<close> in
  \<^verbatim>\<open>loadYaml\<close> takes the steps \<open>Lock g doc\<close>, where \<open>doc\<close> is what the decoder will
  find in the bytes read before, \<open>Store g\<close> for each write of the decoder, and
  \<open>Unlock g\<close>; a handler \<open>h\<close> takes \<open>RLock h\<close>, \<open>Lookup h current\<close> and
  \<open>RUnlock h\<close>. The mutex admits a writer when nobody holds the lock and a reader
  when no writer holds it. (\<^verbatim>\<open>sync.RWMutex\<close> also holds back a reader that arrives
  while a writer waits; admitting it only adds schedules.) A step that is not admitted
  leaves the state as it is: the goroutine waits.

  \<open>generations\<close> lists the maps that reloads have left behind: the map at process
  start and the map at each \<open>Unlock\<close>. \<open>lookups\<close> lists, for each lookup, the
  handler, the path and the map it read from.
\<close>

datatype mutation = Put string entry | Reset

fun mutations :: "yaml_doc \<Rightarrow> mutation list" where
  "mutations Rejected = []"
| "mutations Null_document = [Reset]"
| "mutations (Decoded kvs bad) = map (\<lambda>(k, e). Put k e) kvs"

fun mutate :: "mutation \<Rightarrow> config \<Rightarrow> config" where
  "mutate (Put k e) m = m(k \<mapsto> e)"
| "mutate Reset m = Map.empty"

record locked_store =
  mem :: config
  holder :: "nat option"
  pending :: "mutation list"
  readers :: "nat list"
  generations :: "config list"
  lookups :: "(nat \<times> string \<times> config) list"

datatype lock_event =
    Lock nat yaml_doc
  | Store nat
  | Unlock nat
  | RLock nat
  | Lookup nat string
  | RUnlock nat

definition lock_start :: locked_store where
  "lock_start =
     \<lparr>mem = Map.empty, holder = None, pending = [], readers = [],
      generations = [Map.empty], lookups = []\<rparr>"

definition lock_step :: "lock_event \<Rightarrow> locked_store \<Rightarrow> locked_store" where
  "lock_step ev s =
     (case ev of
        Lock g doc \<Rightarrow>
          if holder s = None \<and> readers s = []
          then s\<lparr>holder := Some g, pending := mutations doc\<rparr>
          else s
      | Store g \<Rightarrow>
          (case pending s of
             [] \<Rightarrow> s
           | mu # mus \<Rightarrow>
               if holder s = Some g then s\<lparr>mem := mutate mu (mem s), pending := mus\<rparr>
               else s)
      | Unlock g \<Rightarrow>
          if holder s = Some g \<and> pending s = []
          then s\<lparr>holder := None, generations := generations s @ [mem s]\<rparr>
          else s
      | RLock h \<Rightarrow>
          if holder s = None then s\<lparr>readers := h # readers s\<rparr> else s
      | Lookup h current \<Rightarrow>
          if h \<in> set (readers s) then s\<lparr>lookups := lookups s @ [(h, current, mem s)]\<rparr> else s
      | RUnlock h \<Rightarrow> s\<lparr>readers := remove1 h (readers s)\<rparr>)"

definition lock_run :: "lock_event list \<Rightarrow> locked_store" where
  "lock_run sched = fold lock_step sched lock_start"

text \<open>
  What holds of the lock in every state: while nobody writes, the map is the last
  generation; while somebody writes, nobody reads; and every lookup so far read from
  a generation.
\<close>

definition lock_inv :: "locked_store \<Rightarrow> bool" where
  "lock_inv s \<longleftrightarrow>
     generations s \<noteq> [] \<and>
     (holder s = None \<longrightarrow> mem s = last (generations s) \<and> pending s = []) \<and>
     (holder s \<noteq> None \<longrightarrow> readers s = []) \<and>
     (\<forall>(h, current, m) \<in> set (lookups s). m \<in> set (generations s))"

section \<open>Sample environments\<close>

text \<open>
  Three documents in block style, used as concrete inputs below, and what the decoder
  finds in them: one entry \<open>/foo\<close> with a GitHub repo and no display; one entry
  \<open>/new\<close>; an entry \<open>/a\<close> followed by a key \<open>/b\<close> whose value is a sequence and
  does not fit the struct. Every other byte string is taken as malformed.
\<close>

definition foo_entry :: entry where
  "foo_entry = \<lparr>Repo = ''https://github.com/org/foo'', Display = ''''\<rparr>"

definition doc_foo :: bytes where
  "doc_foo = ''/foo:\<newline>  repo: https://github.com/org/foo\<newline>''"

definition doc_new :: bytes where
  "doc_new = ''/new:\<newline>  repo: https://example.com/new\<newline>''"

definition doc_mismatch :: bytes where
  "doc_mismatch = ''/a:\<newline>  repo: https://example.com/a\<newline>/b: [x]\<newline>''"

definition sample_parse :: "bytes \<Rightarrow> yaml_doc" where
  "sample_parse bs =
     (if bs = doc_foo
        then Decoded [(''/foo'', foo_entry)] False
      else if bs = doc_new
        then Decoded [(''/new'', \<lparr>Repo = ''https://example.com/new'', Display = ''''\<rparr>)] False
      else if bs = doc_mismatch
        then Decoded [(''/a'', \<lparr>Repo = ''https://example.com/a'', Display = ''''\<rparr>)] True
      else Rejected)"

text \<open>A configuration file on disk with the given content.\<close>

definition disk_env :: "bytes \<Rightarrow> env" where
  "disk_env content =
     \<lparr>http_get = (\<lambda>_. No_response),
      ReadFile = (\<lambda>_. (content, None)),
      yaml_parse = sample_parse,
      range_order = (\<lambda>_. [''/foo'', ''/new'', ''/a'', ''/old''])\<rparr>"

text \<open>
  A remote source that answers the GET with the given status and body: the response
  is there 20 milliseconds after the request, the body read one millisecond later.
\<close>

definition http_env :: "int \<Rightarrow> bytes \<Rightarrow> error option \<Rightarrow> env" where
  "http_env code content err =
     \<lparr>http_get = (\<lambda>_. Response 20000000 code content err 21000000),
      ReadFile = (\<lambda>_. ([], Some ReadFile_failed)),
      yaml_parse = sample_parse,
      range_order = (\<lambda>_. [''/foo'', ''/new'', ''/a'', ''/old''])\<rparr>"

section \<open>Properties of the library functions\<close>

lemmas sample_docs = sample_parse_def doc_foo_def doc_new_def doc_mismatch_def

lemma HasPrefix_prefix: "HasPrefix s p \<longleftrightarrow> prefix p s"
  by (induction s p rule: HasPrefix.induct) auto

lemma Contains_sublist: "Contains s sub \<longleftrightarrow> sublist sub s"
  by (induction s) (auto simp: HasPrefix_prefix sublist_Cons_right)

lemma HasPrefix_https_http: "HasPrefix s ''https'' \<Longrightarrow> HasPrefix s ''http''"
  by (auto simp: HasPrefix_prefix prefix_def)

subsection \<open>The decoder's stores\<close>

lemma store_all_lookup:
  "store_all kvs m k = (case map_of (rev kvs) k of None \<Rightarrow> m k | Some e \<Rightarrow> Some e)"
proof (induction kvs arbitrary: m)
  case Nil
  show ?case by simp
next
  case (Cons a kvs)
  obtain k' e' where a: "a = (k', e')" by (cases a)
  show ?case
    unfolding a by (simp add: Cons.IH map_add_def split: option.splits)
qed

lemma map_of_rev_None: "map_of (rev kvs) k = None \<longleftrightarrow> k \<notin> fst ` set kvs"
  by (simp add: map_of_eq_None_iff)

lemma store_all_other: "k \<notin> fst ` set kvs \<Longrightarrow> store_all kvs m k = m k"
  using map_of_rev_None [of kvs k] by (simp add: store_all_lookup)

lemma store_all_key: "k \<in> fst ` set kvs \<Longrightarrow> store_all kvs m k = map_of (rev kvs) k"
  using map_of_rev_None [of kvs k] by (auto simp: store_all_lookup split: option.splits)

lemma dom_store_all: "dom (store_all kvs m) = dom m \<union> fst ` set kvs"
proof (rule set_eqI)
  fix k
  show "k \<in> dom (store_all kvs m) \<longleftrightarrow> k \<in> dom m \<union> fst ` set kvs"
    using map_of_rev_None [of kvs k]
    by (cases "map_of (rev kvs) k") (auto simp: store_all_lookup dom_def)
qed

lemma store_all_twice: "store_all kvs (store_all kvs m) = store_all kvs m"
  by (rule ext) (simp add: store_all_lookup split: option.splits)

subsection \<open>The response writer\<close>

lemma Write_simps [simp]:
  "wroteHeader (Write data w)"
  "status (Write data w) = (if wroteHeader w then status w else 200)"
  "body (Write data w) = (if failed w then body w else body w @ data)"
  "sent_header (Write data w) = (if wroteHeader w then sent_header w else header w)"
  "failed (Write data w) = failed w"
  by (simp_all add: Write_def WriteHeader_def Let_def)

lemma Error_simps [simp]:
  "wroteHeader (Error msg code w)"
  "status (Error msg code w) = (if wroteHeader w then status w else code)"
  "body (Error msg code w) = (if failed w then body w else body w @ msg @ ''\<newline>'')"
  "sent_header (Error msg code w) =
     (if wroteHeader w then sent_header w
      else (header w)(''Content-Type'' \<mapsto> ''text/plain; charset=utf-8'',
                      ''X-Content-Type-Options'' \<mapsto> ''nosniff''))"
  "failed (Error msg code w) = failed w"
  by (simp_all add: Error_def Write_def WriteHeader_def Let_def)

lemma new_writer_simps [simp]:
  "\<not> wroteHeader new_writer" "body new_writer = []" "header new_writer = Map.empty"
  "\<not> failed new_writer"
  by (simp_all add: new_writer_def)

lemma HasPrefix_doctype: "HasPrefix (vanity_page esc d) ''<!DOCTYPE html>''"
  by (simp add: vanity_page_def)

section \<open>The reload, case by case\<close>

text \<open>The loop after the decoder leaves the map as it is, in whatever order it runs.\<close>

lemma range_loop_id: "range_loop ks m = m"
  by (induction ks) (auto split: option.splits)

text \<open>
  Every returning call of \<open>loadYaml\<close> is one of five: the read fails, the parser
  rejects the bytes, the document is null, or the document is decoded, with or without
  a decoding error.
\<close>

lemma loadYaml_cases:
  "loadYaml w path m = Return (err, m') \<longleftrightarrow>
     (\<exists>vanity rerr. readFile w path = Return (vanity, rerr) \<and>
        (case rerr of
           Some e \<Rightarrow> err = Some e \<and> m' = m
         | None \<Rightarrow>
            (case yaml_parse w vanity of
               Rejected \<Rightarrow> err = Some Yaml_syntax_error \<and> m' = m
             | Null_document \<Rightarrow> err = None \<and> m' = Map.empty
             | Decoded kvs bad \<Rightarrow>
                 err = (if bad then Some Yaml_decode_error else None) \<and>
                 m' = store_all kvs m)))"
  by (auto simp: loadYaml_def range_loop_id
      split: outcome.splits option.splits yaml_doc.splits prod.splits)

text \<open>
  No reload writes a synthesized display: every entry of the shared map after a reload
  was in the map before or is an entry as the decoder produced it.
\<close>

lemma store_all_entry:
  "store_all kvs m k = Some e \<Longrightarrow> m k = Some e \<or> (k, e) \<in> set kvs"
  by (auto simp: store_all_lookup split: option.splits dest: map_of_SomeD)

lemma reload_stores_entries_as_decoded:
  assumes "loadYaml w path m = Return (err, m')" and "m' k = Some e"
  shows "m k = Some e \<or>
     (\<exists>vanity kvs bad. readFile w path = Return (vanity, None) \<and>
        yaml_parse w vanity = Decoded kvs bad \<and> (k, e) \<in> set kvs)"
proof -
  from assms(1) obtain vanity rerr where rd: "readFile w path = Return (vanity, rerr)"
    and body: "(case rerr of
           Some e \<Rightarrow> err = Some e \<and> m' = m
         | None \<Rightarrow>
            (case yaml_parse w vanity of
               Rejected \<Rightarrow> err = Some Yaml_syntax_error \<and> m' = m
             | Null_document \<Rightarrow> err = None \<and> m' = Map.empty
             | Decoded kvs bad \<Rightarrow>
                 err = (if bad then Some Yaml_decode_error else None) \<and>
                 m' = store_all kvs m))"
    unfolding loadYaml_cases by blast
  show ?thesis
  proof (cases rerr)
    case (Some x)
    with body assms(2) show ?thesis by simp
  next
    case None
    show ?thesis
    proof (cases "yaml_parse w vanity")
      case Rejected
      with body None assms(2) show ?thesis by simp
    next
      case Null_document
      with body None assms(2) show ?thesis by simp
    next
      case (Decoded kvs bad)
      with body None have "m' = store_all kvs m" by simp
      with assms(2) have "m k = Some e \<or> (k, e) \<in> set kvs"
        using store_all_entry by metis
      with rd None Decoded show ?thesis by auto
    qed
  qed
qed

section \<open>C1: synthesized display of GitHub entries\<close>

text \<open>
  C1. The claim: an entry of a successfully decoded configuration whose repo contains
  \<open>github.com\<close> and whose display is empty has, after the enrichment step, the
  three-part template as its display in the shared map.
  The code assigns the template to a copy of the entry. On the configuration
  \<open>doc_foo\<close>, whose one entry \<open>/foo\<close> has the repo \<open>https://github.com/org/foo\<close>
  and no display, loaded from disk into the empty map, the reload succeeds and the
  entry stored under \<open>/foo\<close> still has the empty display, although its repo contains
  \<open>github.com\<close>.
\<close>

theorem loadYaml_leaves_github_display_empty:
  "loadYaml (disk_env doc_foo)
       ''/app/config/vanity.yaml'' Map.empty
     = Return (None,
         [''/foo'' \<mapsto> \<lparr>Repo = ''https://github.com/org/foo'', Display = ''''\<rparr>])
   \<and> Contains ''https://github.com/org/foo'' ''github.com''
   \<and> Display (loop_body \<lparr>Repo = ''https://github.com/org/foo'', Display = ''''\<rparr>)
     = ''https://github.com/org/foo https://github.com/org/foo/tree/master{/dir} '' @
       ''https://github.com/org/foo/blob/master{/dir}/{file}#L{line}''"
  by (simp add: loadYaml_def readFile_def loadDiskFile_def disk_env_def sample_docs
      foo_entry_def loop_body_def Sprintf_display_def)

section \<open>C2: what a successful reload leaves in the shared map\<close>

text \<open>
  C2 as stated fails. The shared map holds \<open>/old\<close>; the new document holds only
  \<open>/new\<close>. The reload succeeds and \<open>/old\<close> is still there: the result is not the
  mapping that the same document gives on the empty map.
\<close>

theorem reload_keeps_key_absent_from_document:
  "loadYaml (disk_env doc_new)
       ''/app/config/vanity.yaml'' [''/old'' \<mapsto> foo_entry]
     = Return (None,
         [''/old'' \<mapsto> foo_entry,
          ''/new'' \<mapsto> \<lparr>Repo = ''https://example.com/new'', Display = ''''\<rparr>])
   \<and> loadYaml (disk_env doc_new)
       ''/app/config/vanity.yaml'' Map.empty
     = Return (None, [''/new'' \<mapsto> \<lparr>Repo = ''https://example.com/new'', Display = ''''\<rparr>])"
  by (simp add: loadYaml_def readFile_def loadDiskFile_def disk_env_def sample_docs
      range_loop_id)

text \<open>
  C2, amended. A successful reload read its bytes without error, and the document in
  them was decoded without a decoding error or was null. After a decoded document the
  shared map is the previous one overlaid with the document: its keys are the previous
  keys and the document's keys, a key the document does not have keeps its previous
  entry, and a key of the document holds the entry decoded for it last, with its
  repo; the entry is stored as decoded when the document gives it a display or its
  repo does not contain \<open>github.com\<close>. After a null document the map is empty.
\<close>

theorem successful_reload_overlays_previous_mapping:
  assumes "loadYaml w path m = Return (None, m')"
  shows "\<exists>vanity. readFile w path = Return (vanity, None) \<and>
     (case yaml_parse w vanity of
        Rejected \<Rightarrow> False
      | Null_document \<Rightarrow> m' = Map.empty
      | Decoded kvs bad \<Rightarrow>
          \<not> bad \<and> dom m' = dom m \<union> fst ` set kvs \<and>
          (\<forall>k. k \<notin> fst ` set kvs \<longrightarrow> m' k = m k) \<and>
          (\<forall>k \<in> fst ` set kvs. \<exists>e e'.
              map_of (rev kvs) k = Some e \<and> m' k = Some e' \<and> Repo e' = Repo e \<and>
              (Display e \<noteq> '''' \<or> \<not> Contains (Repo e) ''github.com'' \<longrightarrow> e' = e)))"
proof -
  from assms obtain vanity rerr where rd: "readFile w path = Return (vanity, rerr)"
    and body: "(case rerr of
           Some e \<Rightarrow> None = Some e \<and> m' = m
         | None \<Rightarrow>
            (case yaml_parse w vanity of
               Rejected \<Rightarrow> None = Some Yaml_syntax_error \<and> m' = m
             | Null_document \<Rightarrow> (None :: error option) = None \<and> m' = Map.empty
             | Decoded kvs bad \<Rightarrow>
                 None = (if bad then Some Yaml_decode_error else None) \<and>
                 m' = store_all kvs m))"
    unfolding loadYaml_cases by blast
  from body have rerr: "rerr = None" by (cases rerr) auto
  show ?thesis
  proof (intro exI conjI)
    show "readFile w path = Return (vanity, None)" using rd rerr by simp
    show "case yaml_parse w vanity of
        Rejected \<Rightarrow> False
      | Null_document \<Rightarrow> m' = Map.empty
      | Decoded kvs bad \<Rightarrow>
          \<not> bad \<and> dom m' = dom m \<union> fst ` set kvs \<and>
          (\<forall>k. k \<notin> fst ` set kvs \<longrightarrow> m' k = m k) \<and>
          (\<forall>k \<in> fst ` set kvs. \<exists>e e'.
              map_of (rev kvs) k = Some e \<and> m' k = Some e' \<and> Repo e' = Repo e \<and>
              (Display e \<noteq> '''' \<or> \<not> Contains (Repo e) ''github.com'' \<longrightarrow> e' = e))"
    proof (cases "yaml_parse w vanity")
      case Rejected
      with body rerr show ?thesis by simp
    next
      case Null_document
      with body rerr show ?thesis by simp
    next
      case (Decoded kvs bad)
      with body rerr have nb: "\<not> bad" and m': "m' = store_all kvs m"
        by (auto split: if_splits)
      have "\<exists>e e'. map_of (rev kvs) k = Some e \<and> m' k = Some e' \<and> Repo e' = Repo e \<and>
              (Display e \<noteq> '''' \<or> \<not> Contains (Repo e) ''github.com'' \<longrightarrow> e' = e)"
        if "k \<in> fst ` set kvs" for k
      proof -
        from that obtain e where "map_of (rev kvs) k = Some e"
          using map_of_rev_None [of kvs k] by (cases "map_of (rev kvs) k") auto
        then show ?thesis using that by (simp add: m' store_all_key)
      qed
      then show ?thesis
        using Decoded nb by (simp add: m' dom_store_all store_all_other)
    qed
  qed
qed

text \<open>
  The amended C2 on the reload above: it succeeds, reads the document from disk and
  decodes the one entry \<open>/new\<close>.
\<close>

theorem successful_reload_overlays_previous_mapping_witness:
  "loadYaml (disk_env doc_new)
       ''/app/config/vanity.yaml'' [''/old'' \<mapsto> foo_entry]
     = Return (None,
         [''/old'' \<mapsto> foo_entry,
          ''/new'' \<mapsto> \<lparr>Repo = ''https://example.com/new'', Display = ''''\<rparr>])
   \<and> (\<exists>vanity. readFile (disk_env doc_new)
          ''/app/config/vanity.yaml'' = Return (vanity, None) \<and>
        sample_parse vanity =
          Decoded [(''/new'', \<lparr>Repo = ''https://example.com/new'', Display = ''''\<rparr>)] False)"
proof -
  have h: "loadYaml (disk_env doc_new)
       ''/app/config/vanity.yaml'' [''/old'' \<mapsto> foo_entry]
     = Return (None,
         [''/old'' \<mapsto> foo_entry,
          ''/new'' \<mapsto> \<lparr>Repo = ''https://example.com/new'', Display = ''''\<rparr>])"
    by (simp add: loadYaml_def readFile_def loadDiskFile_def disk_env_def sample_docs
        range_loop_id)
  from successful_reload_overlays_previous_mapping [OF h] h
  show ?thesis
    by (simp add: readFile_def loadDiskFile_def disk_env_def sample_docs)
qed

section \<open>C3: a reload that fails\<close>

text \<open>
  C3 as stated fails. In the document \<open>doc_mismatch\<close> the value of \<open>/b\<close> is a
  sequence and does not fit the struct. The reload returns the
  decoder's error, but the entry \<open>/a\<close> has been stored in the shared map, and the
  request for \<open>/a\<close>, answered 404 before the attempt, is answered 200 after it.
\<close>

theorem failed_reload_keeps_decoded_entries:
  "loadYaml (disk_env doc_mismatch)
       ''/app/config/vanity.yaml'' Map.empty
     = Return (Some Yaml_decode_error,
         [''/a'' \<mapsto> \<lparr>Repo = ''https://example.com/a'', Display = ''''\<rparr>])
   \<and> status (handle ''example.com'' Map.empty No_fault (\<lambda>_ s. s) ''/a'' new_writer) = 404
   \<and> status (handle ''example.com''
         [''/a'' \<mapsto> \<lparr>Repo = ''https://example.com/a'', Display = ''''\<rparr>]
         No_fault (\<lambda>_ s. s) ''/a'' new_writer) = 200"
  by (simp add: loadYaml_def readFile_def loadDiskFile_def disk_env_def sample_docs
      range_loop_id handle_def NotFound_def Execute_def)

text \<open>
  C3, amended. A reload that returns any error other than the decoder's decoding error
  (the request cannot be built or sent, the status is not 200, the body or the file
  cannot be read, the parser rejects the bytes) leaves the shared map exactly as it was,
  and every request is answered as before the attempt.
\<close>

theorem failed_reload_leaves_mapping_unless_decode_error:
  assumes "loadYaml w path m = Return (Some err, m')" and "err \<noteq> Yaml_decode_error"
  shows "m' = m \<and> handle host m' f esc current wr = handle host m f esc current wr"
proof -
  from assms(1) obtain vanity rerr where "readFile w path = Return (vanity, rerr)"
    and body: "(case rerr of
           Some e \<Rightarrow> Some err = Some e \<and> m' = m
         | None \<Rightarrow>
            (case yaml_parse w vanity of
               Rejected \<Rightarrow> Some err = Some Yaml_syntax_error \<and> m' = m
             | Null_document \<Rightarrow> Some err = None \<and> m' = Map.empty
             | Decoded kvs bad \<Rightarrow>
                 Some err = (if bad then Some Yaml_decode_error else None) \<and>
                 m' = store_all kvs m))"
    unfolding loadYaml_cases by blast
  from body assms(2) have "m' = m"
    by (auto split: option.splits yaml_doc.splits if_splits)
  then show ?thesis by simp
qed

text \<open>
  The amended C3 on a remote source that answers 500 after 20 milliseconds: the reload
  fails, here with the error of \<^verbatim>\<open>Do\<close>, the map still holds \<open>/foo\<close>, and the
  request for \<open>/foo\<close> is answered 200.
\<close>

theorem failed_reload_leaves_mapping_unless_decode_error_witness:
  "loadYaml (http_env 500 [] None) ''https://example.com/vanity.yaml'' [''/foo'' \<mapsto> foo_entry]
     = Return (Some Do_failed, [''/foo'' \<mapsto> foo_entry])
   \<and> Do_failed \<noteq> Yaml_decode_error
   \<and> status (handle ''example.com'' [''/foo'' \<mapsto> foo_entry] No_fault (\<lambda>_ s. s) ''/foo''
         new_writer) = 200"
proof -
  have h: "loadYaml (http_env 500 [] None) ''https://example.com/vanity.yaml''
      [''/foo'' \<mapsto> foo_entry] = Return (Some Do_failed, [''/foo'' \<mapsto> foo_entry])"
    by (simp add: loadYaml_def readFile_def loadHTTPFile_def http_env_def Timeout_def)
  have n: "Do_failed \<noteq> Yaml_decode_error" by simp
  from failed_reload_leaves_mapping_unless_decode_error [OF h n] h
  show ?thesis by (simp add: handle_def Execute_def)
qed

section \<open>C4: the remote fetch\<close>

text \<open>
  No call of \<open>loadHTTPFile\<close> returns bytes without an error, whatever the remote
  source answers and however fast: a response that is not there within the 30
  nanoseconds is given up, a response with another status is an error, a body that
  cannot be read is an error, and a body read to the end in time ends in the panic.
\<close>

lemma loadHTTPFile_never_succeeds: "loadHTTPFile w path \<noteq> Return (vanity, None)"
  by (simp add: loadHTTPFile_def split: http_reply.splits option.splits)

lemma loadHTTPFile_gives_up_after_Timeout:
  "http_get w path = Response t code vanity err t' \<Longrightarrow> Timeout \<le> t \<Longrightarrow>
   loadHTTPFile w path = Return ([], Some Do_failed)"
  by (simp add: loadHTTPFile_def)

text \<open>
  C4. The claim: when the response has status 200 and its body can be read to the end
  without a read error, the reader returns the body bytes with no error and without
  crashing.
  The code gives the exchange 30 nanoseconds. With the locator
  \<open>https://example.com/vanity.yaml\<close> and a server that answers 200 with the document
  \<open>doc_foo\<close>, the response there after 20 milliseconds and its body read without error
  a millisecond later, \<open>loadHTTPFile\<close> returns no bytes and the error of \<^verbatim>\<open>Do\<close>, and
  the reload fails with it and leaves the map empty.
\<close>

theorem loadHTTPFile_gives_up_on_served_document:
  "http_get (http_env 200 doc_foo None) ''https://example.com/vanity.yaml''
     = Response 20000000 200 doc_foo None 21000000
   \<and> loadHTTPFile (http_env 200 doc_foo None)
       ''https://example.com/vanity.yaml'' = Return ([], Some Do_failed)
   \<and> readFile (http_env 200 doc_foo None)
       ''https://example.com/vanity.yaml'' = Return ([], Some Do_failed)
   \<and> loadYaml (http_env 200 doc_foo None)
       ''https://example.com/vanity.yaml'' Map.empty = Return (Some Do_failed, Map.empty)"
  by (simp add: loadYaml_def readFile_def loadHTTPFile_def http_env_def Timeout_def)

section \<open>C5: determinism of the parse/enrich step\<close>

text \<open>
  C5 as stated fails. The same bytes are decoded twice, once into the empty map and
  once into a map that holds \<open>/old\<close>. Both reloads succeed and the resulting maps
  differ at \<open>/old\<close>.
\<close>

theorem reload_result_depends_on_previous_mapping:
  "loadYaml (disk_env doc_new)
       ''/app/config/vanity.yaml'' Map.empty
     = Return (None, [''/new'' \<mapsto> \<lparr>Repo = ''https://example.com/new'', Display = ''''\<rparr>])
   \<and> loadYaml (disk_env doc_new)
       ''/app/config/vanity.yaml'' [''/old'' \<mapsto> foo_entry]
     = Return (None,
         [''/old'' \<mapsto> foo_entry,
          ''/new'' \<mapsto> \<lparr>Repo = ''https://example.com/new'', Display = ''''\<rparr>])
   \<and> [''/new'' \<mapsto> \<lparr>Repo = ''https://example.com/new'', Display = ''''\<rparr>] ''/old''
     \<noteq> [''/old'' \<mapsto> foo_entry,
          ''/new'' \<mapsto> \<lparr>Repo = ''https://example.com/new'', Display = ''''\<rparr>] ''/old''"
  by (simp add: loadYaml_def readFile_def loadDiskFile_def disk_env_def sample_docs
      range_loop_id)

text \<open>
  C5, amended. The step is a function of the input bytes and of the map held before.
  Two successful reloads from the same source agree on every key on which the two
  previous maps agreed, so from equal previous maps the results are equal; and a
  second reload from the same source, on the result of the first, succeeds and changes
  nothing.
\<close>

theorem reload_is_function_of_bytes_and_previous_mapping:
  assumes "loadYaml w path m1 = Return (None, m1')"
      and "loadYaml w path m2 = Return (None, m2')"
  shows "(\<forall>k. m1 k = m2 k \<longrightarrow> m1' k = m2' k) \<and> loadYaml w path m1' = Return (None, m1')"
proof -
  from assms(1) obtain vanity where rd: "readFile w path = Return (vanity, None)"
    and b1: "(case yaml_parse w vanity of
               Rejected \<Rightarrow> False
             | Null_document \<Rightarrow> m1' = Map.empty
             | Decoded kvs bad \<Rightarrow> \<not> bad \<and> m1' = store_all kvs m1)"
    unfolding loadYaml_cases by (auto split: option.splits yaml_doc.splits if_splits)
  from assms(2) rd have
    b2: "(case yaml_parse w vanity of
               Rejected \<Rightarrow> False
             | Null_document \<Rightarrow> m2' = Map.empty
             | Decoded kvs bad \<Rightarrow> \<not> bad \<and> m2' = store_all kvs m2)"
    unfolding loadYaml_cases by (auto split: option.splits yaml_doc.splits if_splits)
  have agree: "\<forall>k. m1 k = m2 k \<longrightarrow> m1' k = m2' k"
    using b1 b2 by (auto simp: store_all_lookup split: yaml_doc.splits option.splits)
  have again: "loadYaml w path m1' = Return (None, m1')"
    unfolding loadYaml_cases using rd b1
    by (auto simp: store_all_twice split: yaml_doc.splits)
  from agree again show ?thesis by blast
qed

text \<open>
  The amended C5 on the two reloads above: a third reload of the same document, on the
  result of the first, gives that result again.
\<close>

theorem reload_is_function_of_bytes_and_previous_mapping_witness:
  "loadYaml (disk_env doc_new)
       ''/app/config/vanity.yaml'' Map.empty
     = Return (None, [''/new'' \<mapsto> \<lparr>Repo = ''https://example.com/new'', Display = ''''\<rparr>])
   \<and> loadYaml (disk_env doc_new)
       ''/app/config/vanity.yaml'' [''/old'' \<mapsto> foo_entry]
     = Return (None,
         [''/old'' \<mapsto> foo_entry,
          ''/new'' \<mapsto> \<lparr>Repo = ''https://example.com/new'', Display = ''''\<rparr>])
   \<and> loadYaml (disk_env doc_new)
       ''/app/config/vanity.yaml''
       [''/new'' \<mapsto> \<lparr>Repo = ''https://example.com/new'', Display = ''''\<rparr>]
     = Return (None, [''/new'' \<mapsto> \<lparr>Repo = ''https://example.com/new'', Display = ''''\<rparr>])"
proof -
  have h1: "loadYaml (disk_env doc_new)
       ''/app/config/vanity.yaml'' Map.empty
     = Return (None, [''/new'' \<mapsto> \<lparr>Repo = ''https://example.com/new'', Display = ''''\<rparr>])"
    by (simp add: loadYaml_def readFile_def loadDiskFile_def disk_env_def sample_docs
        range_loop_id)
  have h2: "loadYaml (disk_env doc_new)
       ''/app/config/vanity.yaml'' [''/old'' \<mapsto> foo_entry]
     = Return (None,
         [''/old'' \<mapsto> foo_entry,
          ''/new'' \<mapsto> \<lparr>Repo = ''https://example.com/new'', Display = ''''\<rparr>])"
    by (simp add: loadYaml_def readFile_def loadDiskFile_def disk_env_def sample_docs
        range_loop_id)
  from reload_is_function_of_bytes_and_previous_mapping [OF h1 h2] h1 h2
  show ?thesis by blast
qed

section \<open>C6: the dispatch on the locator\<close>

text \<open>
  C6 as stated fails. The relative path \<open>httpd/vanity.yaml\<close> has neither scheme, yet
  \<open>readFile\<close> hands it to the remote loader, whose request fails, and the file, which
  the disk loader would have read in full, is not read.
\<close>

theorem readFile_sends_http_prefixed_path_to_remote_loader:
  "\<not> spec_scheme_is_http ''httpd/vanity.yaml''
   \<and> readFile (disk_env doc_foo) ''httpd/vanity.yaml''
     = Return ([], Some Do_failed)
   \<and> loadDiskFile (disk_env doc_foo) ''httpd/vanity.yaml''
     = Return (doc_foo, None)"
  by (simp add: spec_scheme_is_http_def readFile_def loadHTTPFile_def loadDiskFile_def
      disk_env_def)

text \<open>
  C6, amended. The reader dispatches on the first four characters of the locator: if
  and only if the locator begins with \<open>http\<close> is the remote loader used, and every
  other locator is read from disk in full. Every locator with the scheme \<open>http://\<close>
  or \<open>https://\<close> begins with \<open>http\<close>.
\<close>

theorem readFile_dispatches_on_http_prefix:
  "(HasPrefix path ''http'' \<longrightarrow> readFile w path = loadHTTPFile w path) \<and>
   (\<not> HasPrefix path ''http'' \<longrightarrow> readFile w path = Return (ReadFile w path)) \<and>
   (spec_scheme_is_http path \<longrightarrow> HasPrefix path ''http'')"
  using HasPrefix_https_http [of path]
  by (auto simp: readFile_def loadDiskFile_def spec_scheme_is_http_def HasPrefix_prefix prefix_def)

text \<open>
  The amended C6 on an HTTPS URL, which goes to the remote loader, and on the default
  path, which is read from disk.
\<close>

theorem readFile_dispatches_on_http_prefix_witness:
  "HasPrefix ''https://example.com/vanity.yaml'' ''http''
   \<and> spec_scheme_is_http ''https://example.com/vanity.yaml''
   \<and> readFile (http_env 500 [] None) ''https://example.com/vanity.yaml''
     = loadHTTPFile (http_env 500 [] None) ''https://example.com/vanity.yaml''
   \<and> \<not> HasPrefix ''/app/config/vanity.yaml'' ''http''
   \<and> readFile (disk_env doc_foo) ''/app/config/vanity.yaml''
     = Return (ReadFile (disk_env doc_foo)
         ''/app/config/vanity.yaml'')"
  using readFile_dispatches_on_http_prefix
          [of "''https://example.com/vanity.yaml''" "http_env 500 [] None"]
        readFile_dispatches_on_http_prefix
          [of "''/app/config/vanity.yaml''"
              "disk_env doc_foo"]
  by (simp add: spec_scheme_is_http_def)

section \<open>C7: the first load and the first request\<close>

lemma reload_keeps [simp]:
  "pc (reload w path s) = pc s"
  "interval_loop (reload w path s) = interval_loop s"
  "signal_loop (reload w path s) = signal_loop s"
  "served (reload w path s) = served s"
  by (simp_all add: reload_def split: outcome.splits prod.splits)

lemma started_start: "started start"
  by (simp add: started_def start_def)

lemma started_step: "started s \<Longrightarrow> started (step host path esc ev s)"
proof (cases ev)
  case Main_step
  assume "started s"
  then show ?thesis
    unfolding Main_step
    by (cases "pc s") (auto simp: step_def main_step_def started_def)
next
  case (Interval_reload w)
  assume "started s"
  then show ?thesis
    unfolding Interval_reload by (auto simp: step_def started_def)
next
  case (Sighup w)
  assume "started s"
  then show ?thesis
    unfolding Sighup by (auto simp: step_def started_def)
next
  case (Request current f)
  assume "started s"
  then show ?thesis
    unfolding Request by (auto simp: step_def started_def)
qed

lemma started_fold: "started s \<Longrightarrow> started (fold (step host path esc) sched s)"
  by (induction sched arbitrary: s) (simp_all add: started_step)

text \<open>
  C7 as stated fails. \<^verbatim>\<open>refreshYaml\<close> only starts the goroutine that loads; \<^verbatim>\<open>main\<close>
  goes on without waiting for it. In the schedule in which \<^verbatim>\<open>main\<close> takes its three
  steps and a request for \<open>/foo\<close> arrives before the goroutine has run, the server
  serves with no load completed and answers 404. Had the load of the configuration with
  \<open>/foo\<close> run before the request, the answer would have been 200.
\<close>

theorem server_answers_before_first_load:
  "pc (run ''example.com'' ''/app/config/vanity.yaml'' (\<lambda>_ s. s)
        [Main_step, Main_step, Main_step, Request ''/foo'' No_fault]) = Serving
   \<and> loads (run ''example.com'' ''/app/config/vanity.yaml'' (\<lambda>_ s. s)
        [Main_step, Main_step, Main_step, Request ''/foo'' No_fault]) = 0
   \<and> map status (served (run ''example.com'' ''/app/config/vanity.yaml'' (\<lambda>_ s. s)
        [Main_step, Main_step, Main_step, Request ''/foo'' No_fault])) = [404]
   \<and> map status (served (run ''example.com'' ''/app/config/vanity.yaml'' (\<lambda>_ s. s)
        [Main_step, Main_step,
         Interval_reload (disk_env doc_foo),
         Main_step, Request ''/foo'' No_fault])) = [200]"
  by (simp add: run_def step_def main_step_def start_def reload_def loadYaml_def readFile_def
      loadDiskFile_def disk_env_def sample_docs range_loop_id handle_def NotFound_def
      Execute_def)

text \<open>
  C7, amended. At process start the shared map is empty. In every schedule, when the
  server serves, and whenever a request has been answered, the goroutine that performs
  the first load has been started; the load itself is not waited for.
\<close>

theorem first_load_is_started_before_serving:
  "shared start = Map.empty
   \<and> (pc (run host path esc sched) = Serving \<longrightarrow> interval_loop (run host path esc sched))
   \<and> (served (run host path esc sched) \<noteq> [] \<longrightarrow> interval_loop (run host path esc sched))"
  using started_fold [OF started_start, of host path esc sched]
  by (auto simp: run_def started_def start_def)

text \<open>
  The amended C7 on the first schedule above: the server serves, has answered a
  request, and the interval goroutine has been started.
\<close>

theorem first_load_is_started_before_serving_witness:
  "pc (run ''example.com'' ''/app/config/vanity.yaml'' (\<lambda>_ s. s)
        [Main_step, Main_step, Main_step, Request ''/foo'' No_fault]) = Serving
   \<and> served (run ''example.com'' ''/app/config/vanity.yaml'' (\<lambda>_ s. s)
        [Main_step, Main_step, Main_step, Request ''/foo'' No_fault]) \<noteq> []
   \<and> interval_loop (run ''example.com'' ''/app/config/vanity.yaml'' (\<lambda>_ s. s)
        [Main_step, Main_step, Main_step, Request ''/foo'' No_fault])"
proof -
  have h: "pc (run ''example.com'' ''/app/config/vanity.yaml'' (\<lambda>_ s. s)
        [Main_step, Main_step, Main_step, Request ''/foo'' No_fault]) = Serving
   \<and> served (run ''example.com'' ''/app/config/vanity.yaml'' (\<lambda>_ s. s)
        [Main_step, Main_step, Main_step, Request ''/foo'' No_fault]) \<noteq> []"
    by (simp add: run_def step_def main_step_def start_def)
  from first_load_is_started_before_serving
         [of "''example.com''" "''/app/config/vanity.yaml''" "\<lambda>_ s. s"
             "[Main_step, Main_step, Main_step, Request ''/foo'' No_fault]"] h
  show ?thesis by blast
qed

section \<open>C8: the responses of the handler\<close>

text \<open>
  What the handler answers, case by case. If the path is not a key of the mapping:
  404 with the standard not-found message as plain text. If it is a key and the
  rendering succeeds: 200 with the rendered page, which the server labels
  \<open>text/html\<close>. If the rendering fails before any output: 500 with the generic
  message. If a write fails while the page is being written: the status 200 that went
  out with the first write, and the part of the page written until then.
\<close>

lemma handle_responses:
  "(m current = None \<longrightarrow>
      status (handle host m f esc current new_writer) = 404 \<and>
      body (handle host m f esc current new_writer) = ''404 page not found\<newline>'' \<and>
      content_type rest (handle host m f esc current new_writer) = ''text/plain; charset=utf-8'')
   \<and> (\<forall>p. m current = Some p \<longrightarrow>
        (case f of
           No_fault \<Rightarrow>
             status (handle host m f esc current new_writer) = 200 \<and>
             body (handle host m f esc current new_writer) =
               vanity_page esc \<lparr>Repo = Repo p, Display = Display p, Import = host @ current\<rparr> \<and>
             content_type rest (handle host m f esc current new_writer) =
               ''text/html; charset=utf-8''
         | Fails_before_output \<Rightarrow>
             status (handle host m f esc current new_writer) = 500 \<and>
             body (handle host m f esc current new_writer) = ''cannot render the page\<newline>'' \<and>
             content_type rest (handle host m f esc current new_writer) =
               ''text/plain; charset=utf-8''
         | Write_fails n \<Rightarrow>
             status (handle host m f esc current new_writer) = 200 \<and>
             body (handle host m f esc current new_writer) =
               take (Suc n) (vanity_page esc
                     \<lparr>Repo = Repo p, Display = Display p, Import = host @ current\<rparr>)))
   \<and> status (handle host m f esc current new_writer) \<in> {200, 404, 500}"
proof (intro conjI impI allI)
  assume miss: "m current = None"
  show "status (handle host m f esc current new_writer) = 404"
    using miss by (simp add: handle_def NotFound_def)
  show "body (handle host m f esc current new_writer) = ''404 page not found\<newline>''"
    using miss by (simp add: handle_def NotFound_def)
  show "content_type rest (handle host m f esc current new_writer) = ''text/plain; charset=utf-8''"
    using miss by (simp add: handle_def NotFound_def content_type_def)
next
  fix p
  assume hit: "m current = Some p"
  show "case f of
           No_fault \<Rightarrow>
             status (handle host m f esc current new_writer) = 200 \<and>
             body (handle host m f esc current new_writer) =
               vanity_page esc \<lparr>Repo = Repo p, Display = Display p, Import = host @ current\<rparr> \<and>
             content_type rest (handle host m f esc current new_writer) =
               ''text/html; charset=utf-8''
         | Fails_before_output \<Rightarrow>
             status (handle host m f esc current new_writer) = 500 \<and>
             body (handle host m f esc current new_writer) = ''cannot render the page\<newline>'' \<and>
             content_type rest (handle host m f esc current new_writer) =
               ''text/plain; charset=utf-8''
         | Write_fails n \<Rightarrow>
             status (handle host m f esc current new_writer) = 200 \<and>
             body (handle host m f esc current new_writer) =
               take (Suc n) (vanity_page esc
                     \<lparr>Repo = Repo p, Display = Display p, Import = host @ current\<rparr>)"
  proof (cases f)
    case No_fault
    then show ?thesis
      using hit HasPrefix_doctype [of esc]
      by (simp add: handle_def Execute_def content_type_def DetectContentType_def)
  next
    case Fails_before_output
    then show ?thesis
      using hit by (simp add: handle_def Execute_def content_type_def)
  next
    case (Write_fails n)
    then show ?thesis
      using hit by (simp add: handle_def Execute_def Let_def)
  qed
next
  show "status (handle host m f esc current new_writer) \<in> {200, 404, 500}"
    by (cases "m current"; cases f)
       (simp_all add: handle_def NotFound_def Execute_def Let_def)
qed

text \<open>
  C8. The claim: a request whose path is not a key is answered 404 with the standard
  message, a request whose path is a key is answered 200 with the rendered page, and a
  request whose page fails to render is answered 500 with a generic message.
  The handler writes the page to the client as it renders it and calls
  \<^verbatim>\<open>http.Error\<close> with 500 afterwards. With the key \<open>/foo\<close>, the request for \<open>/foo\<close>
  and a connection that breaks when fifteen bytes of the page are written, the
  rendering fails, the response keeps the status 200 that went out with the first
  write, and its body is those fifteen bytes: neither the status 500 nor the generic
  message reaches the client.
\<close>

theorem render_failure_after_output_is_answered_200:
  "snd (Execute (Write_fails 14) (\<lambda>_ s. s)
          \<lparr>Repo = ''https://github.com/org/foo'', Display = '''', Import = ''example.com/foo''\<rparr>
          new_writer) = Some Execute_failed
   \<and> status (handle ''example.com'' [''/foo'' \<mapsto> foo_entry] (Write_fails 14) (\<lambda>_ s. s)
               ''/foo'' new_writer) = 200
   \<and> body (handle ''example.com'' [''/foo'' \<mapsto> foo_entry] (Write_fails 14) (\<lambda>_ s. s)
               ''/foo'' new_writer) = ''<!DOCTYPE html>''"
  by (simp add: handle_def Execute_def vanity_page_def foo_entry_def)

section \<open>C9: lookups and reloads under the lock\<close>

lemma mutations_Unmarshal: "fold mutate (mutations doc) m = snd (Unmarshal doc m)"
proof (cases doc)
  case Rejected
  then show ?thesis by simp
next
  case Null_document
  then show ?thesis by simp
next
  case (Decoded kvs bad)
  have "fold mutate (map (\<lambda>(k, e). Put k e) kvs) m = store_all kvs m"
    by (induction kvs arbitrary: m) auto
  with Decoded show ?thesis by simp
qed

text \<open>The steps of the lock, event by event.\<close>

lemma lock_step_simps:
  "lock_step (Lock g doc) s =
     (if holder s = None \<and> readers s = []
      then s\<lparr>holder := Some g, pending := mutations doc\<rparr> else s)"
  "lock_step (Store g) s =
     (case pending s of [] \<Rightarrow> s
      | mu # mus \<Rightarrow> if holder s = Some g then s\<lparr>mem := mutate mu (mem s), pending := mus\<rparr> else s)"
  "lock_step (Unlock g) s =
     (if holder s = Some g \<and> pending s = []
      then s\<lparr>holder := None, generations := generations s @ [mem s]\<rparr> else s)"
  "lock_step (RLock h) s = (if holder s = None then s\<lparr>readers := h # readers s\<rparr> else s)"
  "lock_step (Lookup h current) s =
     (if h \<in> set (readers s) then s\<lparr>lookups := lookups s @ [(h, current, mem s)]\<rparr> else s)"
  "lock_step (RUnlock h) s = s\<lparr>readers := remove1 h (readers s)\<rparr>"
  by (simp_all add: lock_step_def)

lemma lock_inv_start: "lock_inv lock_start"
  by (simp add: lock_inv_def lock_start_def)

lemma lock_inv_step: "lock_inv s \<Longrightarrow> lock_inv (lock_step ev s)"
proof (cases ev)
  case (Lock g doc)
  assume "lock_inv s"
  then show ?thesis
    unfolding Lock by (auto simp: lock_step_def lock_inv_def)
next
  case (Store g)
  assume "lock_inv s"
  then show ?thesis
    unfolding Store by (auto simp: lock_step_def lock_inv_def split: list.splits)
next
  case (Unlock g)
  assume "lock_inv s"
  then show ?thesis
    unfolding Unlock by (auto simp: lock_step_def lock_inv_def)
next
  case (RLock h)
  assume "lock_inv s"
  then show ?thesis
    unfolding RLock by (auto simp: lock_step_def lock_inv_def)
next
  case (Lookup h current)
  assume inv: "lock_inv s"
  show ?thesis
  proof (cases "h \<in> set (readers s)")
    case False
    with inv show ?thesis unfolding Lookup by (simp add: lock_step_def)
  next
    case True
    with inv have "holder s = None" by (auto simp: lock_inv_def)
    with inv have "mem s \<in> set (generations s)" by (auto simp: lock_inv_def)
    with inv True show ?thesis
      unfolding Lookup by (auto simp: lock_step_def lock_inv_def)
  qed
next
  case (RUnlock h)
  assume "lock_inv s"
  then show ?thesis
    unfolding RUnlock by (auto simp: lock_step_def lock_inv_def)
qed

lemma lock_inv_fold: "lock_inv s \<Longrightarrow> lock_inv (fold lock_step sched s)"
  by (induction sched arbitrary: s) (simp_all add: lock_inv_step)

text \<open>
  A reload that runs from \<open>Lock\<close> to \<open>Unlock\<close> with nobody else at the lock does
  to the map what \<open>Unmarshal\<close> does, and leaves the result as a new generation.
\<close>

lemma stores_under_lock:
  "holder s = Some g \<Longrightarrow>
   fold lock_step (replicate (length (pending s)) (Store g)) s
     = s\<lparr>mem := fold mutate (pending s) (mem s), pending := []\<rparr>"
proof (induction "pending s" arbitrary: s)
  case Nil
  then show ?case by simp
next
  case (Cons mu mus)
  let ?s' = "s\<lparr>mem := mutate mu (mem s), pending := mus\<rparr>"
  have step: "lock_step (Store g) s = ?s'"
    using Cons.hyps(2) [symmetric] Cons.prems by (simp add: lock_step_simps)
  have "fold lock_step (replicate (length (pending ?s')) (Store g)) ?s'
      = ?s'\<lparr>mem := fold mutate (pending ?s') (mem ?s'), pending := []\<rparr>"
    by (rule Cons.hyps(1)) (simp_all add: Cons.prems)
  then show ?case
    using Cons.hyps(2) [symmetric] step by simp
qed

lemma reload_under_lock:
  assumes "holder s = None" and "readers s = []"
  shows "fold lock_step
           (Lock g doc # replicate (length (mutations doc)) (Store g) @ [Unlock g]) s
     = s\<lparr>mem := snd (Unmarshal doc (mem s)), pending := [],
          generations := generations s @ [snd (Unmarshal doc (mem s))]\<rparr>"
proof -
  let ?s1 = "s\<lparr>holder := Some g, pending := mutations doc\<rparr>"
  have l: "lock_step (Lock g doc) s = ?s1"
    using assms by (simp add: lock_step_simps)
  have st: "fold lock_step (replicate (length (mutations doc)) (Store g)) ?s1
      = ?s1\<lparr>mem := fold mutate (mutations doc) (mem s), pending := []\<rparr>"
    using stores_under_lock [of ?s1 g] by simp
  have "fold lock_step
           (Lock g doc # replicate (length (mutations doc)) (Store g) @ [Unlock g]) s
      = lock_step (Unlock g)
          (fold lock_step (replicate (length (mutations doc)) (Store g))
             (lock_step (Lock g doc) s))"
    by (simp only: fold.simps fold_append comp_def id_def)
  also have "\<dots> = lock_step (Unlock g)
          (?s1\<lparr>mem := fold mutate (mutations doc) (mem s), pending := []\<rparr>)"
    by (simp only: l st)
  also have "\<dots> = s\<lparr>mem := snd (Unmarshal doc (mem s)), pending := [],
          generations := generations s @ [snd (Unmarshal doc (mem s))]\<rparr>"
    using assms by (simp add: lock_step_simps mutations_Unmarshal)
  finally show ?thesis .
qed

text \<open>
  The lock matters: inside a reload that stores two entries, after the first store,
  the map in memory is none of the generations, neither the one before the reload nor
  the one after it.
\<close>

lemma map_inside_reload_is_no_generation:
  "mem (lock_run [Lock 7 (Decoded [(''/a'', foo_entry), (''/b'', foo_entry)] False), Store 7])
     = [''/a'' \<mapsto> foo_entry]
   \<and> generations
       (lock_run [Lock 7 (Decoded [(''/a'', foo_entry), (''/b'', foo_entry)] False),
          Store 7, Store 7, Unlock 7])
     = [Map.empty, [''/a'' \<mapsto> foo_entry, ''/b'' \<mapsto> foo_entry]]
   \<and> [''/a'' \<mapsto> foo_entry] \<noteq> Map.empty
   \<and> [''/a'' \<mapsto> foo_entry] ''/b'' \<noteq> [''/a'' \<mapsto> foo_entry, ''/b'' \<mapsto> foo_entry] ''/b''"
  by (simp add: lock_run_def lock_step_simps lock_start_def)

text \<open>
  C9. Under every interleaving of the handlers and the reloading goroutines, each
  lookup reads from the map as a completed reload (or the process start) left it,
  never from a map that a reload is still writing to; and a lookup is admitted
  whenever no reload holds the lock, whatever lookups hold it at the time, so lookups
  do not keep one another waiting.
\<close>

theorem lookups_see_complete_generations:
  "(\<forall>(h, current, m) \<in> set (lookups (lock_run sched)).
       m \<in> set (generations (lock_run sched)))
   \<and> (holder s = None \<longrightarrow> readers (lock_step (RLock h) s) = h # readers s)"
proof
  have "lock_inv (lock_run sched)"
    unfolding lock_run_def by (rule lock_inv_fold [OF lock_inv_start])
  then show "\<forall>(h, current, m) \<in> set (lookups (lock_run sched)).
       m \<in> set (generations (lock_run sched))"
    by (simp add: lock_inv_def)
  show "holder s = None \<longrightarrow> readers (lock_step (RLock h) s) = h # readers s"
    by (simp add: lock_step_def)
qed

text \<open>
  C9 on a schedule with three handlers and one reload of \<open>doc_foo\<close>. Handlers 1 and 2
  hold the read lock together; the reload has to wait for them; handler 3 is not
  admitted while the reload stores and looks up afterwards. The first lookup read
  from the empty map of the process start, the last from the map the reload left.
\<close>

theorem lookups_see_complete_generations_witness:
  "readers (lock_run [RLock 1, RLock 2]) = [2, 1]
   \<and> lookups (lock_run
       [RLock 1, RLock 2, Lock 7 (sample_parse doc_foo), Lookup 1 ''/foo'', RUnlock 1,
        RUnlock 2, Lock 7 (sample_parse doc_foo), RLock 3, Lookup 3 ''/foo'', Store 7,
        Unlock 7, RLock 3, Lookup 3 ''/foo'', RUnlock 3])
     = [(1, ''/foo'', Map.empty), (3, ''/foo'', [''/foo'' \<mapsto> foo_entry])]
   \<and> generations (lock_run
       [RLock 1, RLock 2, Lock 7 (sample_parse doc_foo), Lookup 1 ''/foo'', RUnlock 1,
        RUnlock 2, Lock 7 (sample_parse doc_foo), RLock 3, Lookup 3 ''/foo'', Store 7,
        Unlock 7, RLock 3, Lookup 3 ''/foo'', RUnlock 3])
     = [Map.empty, [''/foo'' \<mapsto> foo_entry]]"
proof -
  have r: "holder (lock_run [RLock 1]) = None"
    by (simp add: lock_run_def lock_step_simps lock_start_def)
  have r1: "readers (lock_run [RLock 1]) = [1]"
    by (simp add: lock_run_def lock_step_simps lock_start_def)
  have two: "lock_run [RLock 1, RLock 2] = lock_step (RLock 2) (lock_run [RLock 1])"
    by (simp add: lock_run_def)
  have ev: "lookups (lock_run
       [RLock 1, RLock 2, Lock 7 (sample_parse doc_foo), Lookup 1 ''/foo'', RUnlock 1,
        RUnlock 2, Lock 7 (sample_parse doc_foo), RLock 3, Lookup 3 ''/foo'', Store 7,
        Unlock 7, RLock 3, Lookup 3 ''/foo'', RUnlock 3])
     = [(1, ''/foo'', Map.empty), (3, ''/foo'', [''/foo'' \<mapsto> foo_entry])]
   \<and> generations (lock_run
       [RLock 1, RLock 2, Lock 7 (sample_parse doc_foo), Lookup 1 ''/foo'', RUnlock 1,
        RUnlock 2, Lock 7 (sample_parse doc_foo), RLock 3, Lookup 3 ''/foo'', Store 7,
        Unlock 7, RLock 3, Lookup 3 ''/foo'', RUnlock 3])
     = [Map.empty, [''/foo'' \<mapsto> foo_entry]]"
    by (simp add: lock_run_def lock_step_simps lock_start_def sample_parse_def)
  from lookups_see_complete_generations
         [of "[RLock 1, RLock 2, Lock 7 (sample_parse doc_foo), Lookup 1 ''/foo'', RUnlock 1,
               RUnlock 2, Lock 7 (sample_parse doc_foo), RLock 3, Lookup 3 ''/foo'', Store 7,
               Unlock 7, RLock 3, Lookup 3 ''/foo'', RUnlock 3]"
             "lock_run [RLock 1]" 2]
       r r1 two ev
  show ?thesis by auto
qed

section \<open>C10: keys without a leading slash\<close>

text \<open>
  C10. The handler looks up the path of the request, and the path of a request that
  reaches the handler begins with \<open>/\<close>. So an entry whose key \<open>k\<close> does not begin
  with \<open>/\<close> is unreachable: for every request the path differs from \<open>k\<close>, the
  response is the one the mapping without \<open>k\<close> gives, and it is 404 unless the path
  is some other key of the mapping.
\<close>

theorem slashless_key_is_never_served:
  assumes "\<not> HasPrefix k ''/''" and "HasPrefix current ''/''"
  shows "current \<noteq> k
     \<and> handle host (m(k \<mapsto> e)) f esc current w = handle host (m(k := None)) f esc current w
     \<and> ((m(k := None)) current = None \<longrightarrow>
          status (handle host (m(k \<mapsto> e)) f esc current new_writer) = 404)"
proof -
  from assms have ne: "current \<noteq> k" by auto
  then show ?thesis
    by (simp add: handle_def NotFound_def)
qed

text \<open>
  C10 on the mapping whose only key is \<open>foo\<close>: the request for \<open>/foo\<close> is answered
  404.
\<close>

theorem slashless_key_is_never_served_witness:
  "\<not> HasPrefix ''foo'' ''/'' \<and> HasPrefix ''/foo'' ''/''
   \<and> ''/foo'' \<noteq> ''foo''
   \<and> status (handle ''example.com'' [''foo'' \<mapsto> foo_entry] No_fault (\<lambda>_ s. s) ''/foo''
        new_writer) = 404"
proof -
  have a: "\<not> HasPrefix ''foo'' ''/''" and b: "HasPrefix ''/foo'' ''/''" by simp_all
  have c: "(Map.empty(''foo'' := None)) ''/foo'' = (None :: entry option)" by simp
  from slashless_key_is_never_served
         [OF a b, of "''example.com''" Map.empty foo_entry No_fault "\<lambda>_ s. s" new_writer] a b c
  show ?thesis by blast
qed

end
